theory Spec2Isabelle
  imports Complex_Main "HOL-Library.Word" "HOL-Library.Multiset"
begin

unbundle bit_operations_syntax

section \<open>Python and numpy primitives used by the detector code\<close>

text \<open>
  Exceptions of the Python source are values of \<open>py_error\<close>; a function that can raise
  returns \<open>py_error + 'a\<close> with \<open>Inl\<close> for the raised exception.

  Times (\<open>exposure_time\<close>, \<open>FRAMETIMESEC\<close>, \<open>skip_time\<close>) are Python floats in the source.
  They are modelled as exact rationals: the embedding describes the arithmetic the source
  writes down, without binary rounding of the products and quotients.
\<close>

datatype py_error =
    ZeroDivisionError
  | KeyError
  | IndexError
  | TypeError
  | ValueError
  | ConnectionAbortedError
  | ExecutionError
  | ImageAcquisitionError
  | OtherException

text \<open>Python 3 \<open>round(x)\<close> on a float: to the nearest integer, ties to the even one.\<close>

definition py_round :: "rat \<Rightarrow> int" where
  "py_round x =
     (let f = \<lfloor>x\<rfloor>; d = x - of_int f
      in if d < 1 / 2 then f
         else if 1 / 2 < d then f + 1
         else if even f then f else f + 1)"

text \<open>Python slicing \<open>xs[start:stop]\<close> with step 1: negative indices count from the end,
  and both ends are clamped to the list.\<close>

definition py_slice_index :: "nat \<Rightarrow> int \<Rightarrow> nat" where
  "py_slice_index n i = (if i < 0 then nat (max 0 (int n + i)) else min n (nat i))"

definition py_slice :: "'a list \<Rightarrow> int \<Rightarrow> int \<Rightarrow> 'a list" where
  "py_slice xs start stop =
     (let lo = py_slice_index (length xs) start; hi = py_slice_index (length xs) stop
      in take (hi - lo) (drop lo xs))"

section \<open>utils/image.py: exposure time and frame count per reduction mode\<close>

definition ssr_calc_frames :: "rat \<Rightarrow> rat \<Rightarrow> py_error + int" where
  "ssr_calc_frames exposure_time time_per_frame =
     (if time_per_frame = 0 then Inl ZeroDivisionError
      else Inr (py_round (exposure_time / time_per_frame)))"

definition cds_calc_frames :: "rat \<Rightarrow> rat \<Rightarrow> py_error + int" where
  "cds_calc_frames exposure_time time_per_frame =
     map_sum id (\<lambda>n. n + 1) (ssr_calc_frames exposure_time time_per_frame)"

definition mean_calc_frames :: "rat \<Rightarrow> rat \<Rightarrow> py_error + int" where
  "mean_calc_frames exposure_time time_per_frame =
     map_sum id (\<lambda>n. n * 2) (ssr_calc_frames exposure_time time_per_frame)"

definition fowler_calc_frames :: "rat \<Rightarrow> rat \<Rightarrow> int \<Rightarrow> py_error + int" where
  "fowler_calc_frames exposure_time time_per_frame fowler_number =
     (let fowler_time = time_per_frame * of_int fowler_number;
          exposure_time_remaining = exposure_time - fowler_time
      in if exposure_time_remaining < 0 then Inr (fowler_number * 2)
         else map_sum id (\<lambda>n. n + fowler_number * 2)
                (ssr_calc_frames exposure_time_remaining time_per_frame))"

definition fowler2_calc_frames :: "rat \<Rightarrow> rat \<Rightarrow> py_error + int" where
  "fowler2_calc_frames exposure_time time_per_frame =
     fowler_calc_frames exposure_time time_per_frame 2"

definition fowler4_calc_frames :: "rat \<Rightarrow> rat \<Rightarrow> py_error + int" where
  "fowler4_calc_frames exposure_time time_per_frame =
     fowler_calc_frames exposure_time time_per_frame 4"

definition fowler8_calc_frames :: "rat \<Rightarrow> rat \<Rightarrow> py_error + int" where
  "fowler8_calc_frames exposure_time time_per_frame =
     fowler_calc_frames exposure_time time_per_frame 8"

definition fowler16_calc_frames :: "rat \<Rightarrow> rat \<Rightarrow> py_error + int" where
  "fowler16_calc_frames exposure_time time_per_frame =
     fowler_calc_frames exposure_time time_per_frame 16"

definition FRAMES_PER_EXPOSURE_TIME :: "string \<rightharpoonup> (rat \<Rightarrow> rat \<Rightarrow> py_error + int)" where
  "FRAMES_PER_EXPOSURE_TIME = map_of
     [(''CDS'', cds_calc_frames),
      (''SSR'', ssr_calc_frames),
      (''MEAN'', mean_calc_frames),
      (''MEDIAN'', mean_calc_frames),
      (''MODE'', mean_calc_frames),
      (''MIN'', ssr_calc_frames),
      (''MAX'', ssr_calc_frames),
      (''FOWLER2'', fowler2_calc_frames),
      (''FOWLER4'', fowler4_calc_frames),
      (''FOWLER8'', fowler8_calc_frames),
      (''FOWLER16'', fowler16_calc_frames)]"

definition cds_calc_exposure :: "int \<Rightarrow> rat \<Rightarrow> rat" where
  "cds_calc_exposure frames time_per_frame = of_int (frames - 1) * time_per_frame"

definition ssr_calc_exposure :: "int \<Rightarrow> rat \<Rightarrow> rat" where
  "ssr_calc_exposure frames time_per_frame = of_int frames * time_per_frame"

definition mean_calc_exposure :: "int \<Rightarrow> rat \<Rightarrow> rat" where
  "mean_calc_exposure frames time_per_frame = ssr_calc_exposure frames time_per_frame / 2"

definition fowler_calc_exposure :: "int \<Rightarrow> rat \<Rightarrow> int \<Rightarrow> rat" where
  "fowler_calc_exposure frames time_per_frame fowler_number =
     (let fowler_time = of_int fowler_number * time_per_frame;
          frame_time = of_int (frames - 2 * fowler_number) * time_per_frame
      in fowler_time + frame_time)"

definition fowler2_calc_exposure :: "int \<Rightarrow> rat \<Rightarrow> rat" where
  "fowler2_calc_exposure frames time_per_frame = fowler_calc_exposure frames time_per_frame 2"

definition fowler4_calc_exposure :: "int \<Rightarrow> rat \<Rightarrow> rat" where
  "fowler4_calc_exposure frames time_per_frame = fowler_calc_exposure frames time_per_frame 4"

text \<open>The source passes the Fowler number 4 in the next two functions as well.\<close>

definition fowler8_calc_exposure :: "int \<Rightarrow> rat \<Rightarrow> rat" where
  "fowler8_calc_exposure frames time_per_frame = fowler_calc_exposure frames time_per_frame 4"

definition fowler16_calc_exposure :: "int \<Rightarrow> rat \<Rightarrow> rat" where
  "fowler16_calc_exposure frames time_per_frame = fowler_calc_exposure frames time_per_frame 4"

definition EXPOSURE_TIME_PER_FRAMES :: "string \<rightharpoonup> (int \<Rightarrow> rat \<Rightarrow> rat)" where
  "EXPOSURE_TIME_PER_FRAMES = map_of
     [(''CDS'', cds_calc_exposure),
      (''SSR'', ssr_calc_exposure),
      (''MEAN'', mean_calc_exposure),
      (''MEDIAN'', mean_calc_exposure),
      (''MODE'', mean_calc_exposure),
      (''MIN'', ssr_calc_exposure),
      (''MAX'', ssr_calc_exposure),
      (''FOWLER2'', fowler2_calc_exposure),
      (''FOWLER4'', fowler4_calc_exposure),
      (''FOWLER8'', fowler8_calc_exposure),
      (''FOWLER16'', fowler16_calc_exposure)]"

text \<open>\<open>calc_num_frames\<close> and \<open>calc_effective_exposure_time\<close> read \<open>MODE\<close> and
  \<open>FRAMETIMESEC\<close> from the settings; here the two settings are arguments. A mode that is
  not a key of the registry raises \<open>KeyError\<close>.\<close>

definition calc_num_frames :: "string \<Rightarrow> rat \<Rightarrow> rat \<Rightarrow> py_error + int" where
  "calc_num_frames mode frametimesec exposure_time =
     (case FRAMES_PER_EXPOSURE_TIME mode of
        None \<Rightarrow> Inl KeyError
      | Some f \<Rightarrow> f exposure_time frametimesec)"

definition calc_effective_exposure_time :: "string \<Rightarrow> rat \<Rightarrow> int \<Rightarrow> py_error + rat" where
  "calc_effective_exposure_time mode frametimesec frames =
     (case EXPOSURE_TIME_PER_FRAMES mode of
        None \<Rightarrow> Inl KeyError
      | Some g \<Rightarrow> Inr (g frames frametimesec))"

text \<open>The composition \<open>EXPOSURE_TIME_PER_FRAMES[M](FRAMES_PER_EXPOSURE_TIME[M](t, frameTime),
  frameTime)\<close>.\<close>

definition exposure_round_trip :: "string \<Rightarrow> rat \<Rightarrow> rat \<Rightarrow> py_error + rat" where
  "exposure_round_trip mode t frametimesec =
     (case calc_num_frames mode frametimesec t of
        Inl e \<Rightarrow> Inl e
      | Inr frames \<Rightarrow> calc_effective_exposure_time mode frametimesec frames)"

section \<open>utils/image.py: up-the-ramp reductions\<close>

text \<open>
  A ramp is a numpy array of frames with one element type. The detector delivers integer
  samples, so the element types of the model are numpy's fixed-width integers; a frame is
  its flat list of samples.
\<close>

datatype dtype = UInt nat | SInt nat

record ramp =
  ramp_dtype :: dtype
  ramp_frames :: "int list list"

record frame =
  frame_dtype :: dtype
  frame_data :: "int list"

text \<open>\<open>str(n)\<close> and \<open>int(s)\<close> on decimal numerals.\<close>

fun str_of_nat :: "nat \<Rightarrow> string" where
  "str_of_nat n =
     (if n < 10 then [''0123456789'' ! n]
      else str_of_nat (n div 10) @ [''0123456789'' ! (n mod 10)])"

declare str_of_nat.simps [simp del]

definition is_digit :: "char \<Rightarrow> bool" where
  "is_digit c = (c \<in> set ''0123456789'')"

definition int_of_str :: "string \<Rightarrow> nat" where
  "int_of_str s = foldl (\<lambda>a c. 10 * a + (of_char c - 48)) 0 s"

text \<open>\<open>re.findall(r'\d+', s)\<close>: the maximal runs of digits, left to right.\<close>

fun findall_digits_from :: "string \<Rightarrow> string \<Rightarrow> string list" where
  "findall_digits_from cur [] = (if cur = [] then [] else [cur])"
| "findall_digits_from cur (c # cs) =
     (if is_digit c then findall_digits_from (cur @ [c]) cs
      else (if cur = [] then [] else [cur]) @ findall_digits_from [] cs)"

definition findall_digits :: "string \<Rightarrow> string list" where
  "findall_digits s = findall_digits_from [] s"

text \<open>\<open>s.replace(old, new)\<close> for a non-empty \<open>old\<close>: every non-overlapping occurrence,
  left to right.\<close>

function str_replace :: "string \<Rightarrow> string \<Rightarrow> string \<Rightarrow> string" where
  "str_replace old new s =
     (if s = [] \<or> old = [] then s
      else if take (length old) s = old
           then new @ str_replace old new (drop (length old) s)
           else hd s # str_replace old new (tl s))"
  by pat_completeness auto
termination
  by (relation "measure (\<lambda>(old, new, s). length s)") auto

declare str_replace.simps [simp del]

text \<open>\<open>str(a.dtype)\<close>, and the element types numpy understands by name; any other name
  makes \<open>astype\<close> raise \<open>TypeError\<close> (numpy has no integer type wider than 64 bits).\<close>

definition dtype_str :: "dtype \<Rightarrow> string" where
  "dtype_str d = (case d of UInt w \<Rightarrow> ''uint'' @ str_of_nat w | SInt w \<Rightarrow> ''int'' @ str_of_nat w)"

definition np_dtype :: "string \<rightharpoonup> dtype" where
  "np_dtype = map_of
     [(''int8'', SInt 8), (''int16'', SInt 16), (''int32'', SInt 32), (''int64'', SInt 64),
      (''uint8'', UInt 8), (''uint16'', UInt 16), (''uint32'', UInt 32), (''uint64'', UInt 64)]"

text \<open>Conversion of a sample to an element type keeps the low bits: an unsigned type reads
  them as a natural number, a signed type as two's complement.\<close>

definition wrap_dtype :: "dtype \<Rightarrow> int \<Rightarrow> int" where
  "wrap_dtype d v =
     (case d of
        UInt w \<Rightarrow> v mod 2 ^ w
      | SInt w \<Rightarrow> (v + 2 ^ (w - 1)) mod 2 ^ w - 2 ^ (w - 1))"

definition astype :: "frame \<Rightarrow> string \<Rightarrow> py_error + frame" where
  "astype a name =
     (case np_dtype name of
        None \<Rightarrow> Inl TypeError
      | Some d \<Rightarrow> Inr \<lparr>frame_dtype = d, frame_data = map (wrap_dtype d) (frame_data a)\<rparr>)"

text \<open>Elementwise \<open>a - b\<close> of two frames of one element type and one shape.\<close>

definition frame_sub :: "frame \<Rightarrow> frame \<Rightarrow> frame" where
  "frame_sub a b =
     \<lparr>frame_dtype = frame_dtype a,
      frame_data = map (\<lambda>(x, y). wrap_dtype (frame_dtype a) (x - y))
                     (zip (frame_data a) (frame_data b))\<rparr>"

definition cds_frame_reduce :: "ramp \<Rightarrow> py_error + frame" where
  "cds_frame_reduce images =
     (if ramp_frames images = [] then Inl IndexError
      else
        let image_type = dtype_str (ramp_dtype images);
            image_type =
              (if take 1 image_type = ''u''
               then let image_type = drop 1 image_type;
                        precision = int_of_str (last (findall_digits image_type))
                    in str_replace (str_of_nat precision) (str_of_nat (precision * 2)) image_type
               else image_type);
            first = \<lparr>frame_dtype = ramp_dtype images, frame_data = hd (ramp_frames images)\<rparr>;
            final = \<lparr>frame_dtype = ramp_dtype images, frame_data = last (ramp_frames images)\<rparr>
        in case astype final image_type of
             Inl e \<Rightarrow> Inl e
           | Inr a \<Rightarrow> (case astype first image_type of
                         Inl e \<Rightarrow> Inl e
                       | Inr b \<Rightarrow> Inr (frame_sub a b)))"

text \<open>\<open>a.mean(axis=0)\<close> over a stack of frames: the per-pixel mean, a float64 array in numpy
  and a list of rationals here. The mean of an empty stack is numpy's \<open>nan\<close>, here \<open>None\<close>.\<close>

definition mean_axis0 :: "int list list \<Rightarrow> rat list option" where
  "mean_axis0 fs =
     (if fs = [] then None
      else Some (map (\<lambda>p. (\<Sum>f\<leftarrow>fs. rat_of_int (f ! p)) / rat_of_nat (length fs))
                   [0..<length (hd fs)]))"

definition fowler_frame_reduce :: "ramp \<Rightarrow> nat \<Rightarrow> rat list option" where
  "fowler_frame_reduce images fowler_number =
     (case mean_axis0 (py_slice (ramp_frames images) 0 (int fowler_number)) of
        None \<Rightarrow> None
      | Some start \<Rightarrow>
          (case mean_axis0 (py_slice (ramp_frames images) (- 1 - int fowler_number) (- 1)) of
             None \<Rightarrow> None
           | Some end \<Rightarrow> Some (map (\<lambda>(e, s). e - s) (zip end start))))"

definition fowler2_frame_reduce :: "ramp \<Rightarrow> rat list option" where
  "fowler2_frame_reduce images = fowler_frame_reduce images 2"

definition fowler4_frame_reduce :: "ramp \<Rightarrow> rat list option" where
  "fowler4_frame_reduce images = fowler_frame_reduce images 4"

definition fowler8_frame_reduce :: "ramp \<Rightarrow> rat list option" where
  "fowler8_frame_reduce images = fowler_frame_reduce images 8"

definition fowler16_frame_reduce :: "ramp \<Rightarrow> rat list option" where
  "fowler16_frame_reduce images = fowler_frame_reduce images 16"

section \<open>utils/status.py: the shared status\<close>

text \<open>
  The status is a JSON document: a Python dict in memory (\<open>self.status\<close>) and a file written
  by \<open>JSONHandler.save_dict_to_json\<close>. A key that is absent from the dict is \<open>None\<close>; the
  per-camera entries are keyed by the camera number \<open>n\<close> of the key \<open>CAMERAn\<close>.
\<close>

record status_doc =
  CurrentCommand :: "string option"
  CommandStartTime :: "string option"
  CommandComplete :: "bool option"
  CommandCompleteTime :: "string option"
  ExposureTimeRemaining :: "rat option"
  TotalFrameCount :: "int option"
  ExposureFrames :: "(nat \<rightharpoonup> string list) option"
  IntermediateReducedFrames :: "(nat \<rightharpoonup> string list) option"
  FinalReducedFrame :: "(nat \<rightharpoonup> string) option"

text \<open>A \<open>Status\<close> object: the dict in memory and the content of the status file
  (\<open>None\<close> while the file does not exist).\<close>

record status_obj =
  status :: status_doc
  json_file :: "status_doc option"


definition update_exposure_time_remaining :: "rat \<Rightarrow> status_obj \<Rightarrow> status_obj" where
  "update_exposure_time_remaining exposure_time s =
     s\<lparr>status := (status s)\<lparr>ExposureTimeRemaining := Some exposure_time\<rparr>\<rparr>"

definition update_total_frame_count :: "int \<Rightarrow> status_obj \<Rightarrow> status_obj" where
  "update_total_frame_count frame_count s =
     s\<lparr>status := (status s)\<lparr>TotalFrameCount := Some frame_count\<rparr>\<rparr>"







section \<open>interface/interface.py: command dispatch\<close>





text \<open>
  A command receives its arguments and the status object; it returns a response or raises,
  and leaves the status object as its calls of the status methods made it. The table
  \<open>COMMANDS\<close> of command classes is an argument of the dispatcher, as are the setting
  \<open>ERRORNAK\<close>, the status template and the two clock readings. The exceptions of the model
  are those derived from Python's \<open>Exception\<close>.
\<close>

datatype response = CommandResponse string | Traceback py_error




section \<open>detector/macie/io.py: the exposure sequence of \<open>BaseMACIE.start\<close>\<close>

text \<open>
  The loop that builds the skip schedule: one kept entry, then \<open>skip_frames\<close> skipped
  entries (the inner \<open>for\<close> loop, empty for a negative count), each entry counted against
  \<open>remaining_frames\<close>.
\<close>

function skips_loop :: "int \<Rightarrow> int \<Rightarrow> bool list \<Rightarrow> bool list" where
  "skips_loop remaining_frames skip_frames skips =
     (if remaining_frames > 0
      then skips_loop (remaining_frames - 1 - int (nat skip_frames)) skip_frames
             (skips @ [False] @ replicate (nat skip_frames) True)
      else skips)"
  by pat_completeness auto
termination
  by (relation "measure (\<lambda>(remaining_frames, skip_frames, skips). nat remaining_frames)") auto

declare skips_loop.simps [simp del]

text \<open>The schedule of \<open>start\<close>: \<open>skips[:science_frames]\<close> of the list built by the loop.\<close>

definition start_skips :: "string \<Rightarrow> rat \<Rightarrow> rat \<Rightarrow> rat \<Rightarrow> py_error + bool list" where
  "start_skips mode frametimesec exposure_time skip_time =
     (case calc_num_frames mode frametimesec exposure_time of
        Inl e \<Rightarrow> Inl e
      | Inr science_frames \<Rightarrow>
          (case ssr_calc_frames skip_time frametimesec of
             Inl e \<Rightarrow> Inl e
           | Inr skip_frames \<Rightarrow>
               Inr (py_slice (skips_loop science_frames skip_frames []) 0 science_frames)))"

text \<open>
  One capture loop of \<open>start\<close> (\<open>for frame in range(...)\<close>): read a frame from the device,
  count it off \<open>total_frames\<close> and write the time remaining to the status. The device is the
  predicate \<open>read_ok\<close>, which says whether the read after \<open>n\<close> earlier reads of the exposure
  delivers a frame; a failed read raises and ends the exposure. The result lists the status
  object after each captured frame. The post-processing threads started by
  \<open>capture_frame\<close> write other keys of the status and are not part of this model.
\<close>

fun capture_loop ::
    "(nat \<Rightarrow> bool) \<Rightarrow> rat \<Rightarrow> nat \<Rightarrow> nat \<Rightarrow> int \<Rightarrow> status_obj
       \<Rightarrow> py_error option \<times> int \<times> status_obj list" where
  "capture_loop read_ok frametimesec reads_done 0 total_frames s = (None, total_frames, [])"
| "capture_loop read_ok frametimesec reads_done (Suc n) total_frames s =
     (if \<not> read_ok reads_done then (Some ImageAcquisitionError, total_frames, [])
      else
        let total_frames = total_frames - 1;
            time_remaining = of_int total_frames * frametimesec;
            s = update_exposure_time_remaining time_remaining s;
            (e, total, later) = capture_loop read_ok frametimesec (Suc reads_done) n total_frames s
        in (e, total, s # later))"

text \<open>
  \<open>start\<close> up to the end of the science capture loop. The result is the exception raised,
  if any, and the status objects in the order of the writes of \<open>ExposureTimeRemaining\<close>:
  the initialisation first, then one after each captured frame, reset frames before science
  frames. The calls that configure the science interface, build the file names, fill the
  FITS header and start the ASIC do not touch the status and are left out.
\<close>

definition start ::
    "string \<Rightarrow> rat \<Rightarrow> int \<Rightarrow> (nat \<Rightarrow> bool) \<Rightarrow> rat \<Rightarrow> rat \<Rightarrow> status_obj
       \<Rightarrow> py_error option \<times> status_obj list" where
  "start mode frametimesec reset_frames read_ok exposure_time skip_time s =
     (case calc_num_frames mode frametimesec exposure_time of
        Inl e \<Rightarrow> (Some e, [])
      | Inr science_frames \<Rightarrow>
          (case start_skips mode frametimesec exposure_time skip_time of
             Inl e \<Rightarrow> (Some e, [])
           | Inr skips \<Rightarrow>
               (case calc_effective_exposure_time mode frametimesec science_frames of
                  Inl e \<Rightarrow> (Some e, [])
                | Inr effective \<Rightarrow>
                    (let s = update_total_frame_count science_frames s;
                         total_frames = reset_frames + science_frames;
                         s = update_exposure_time_remaining (of_int total_frames * frametimesec) s;
                         (e1, total_frames, resets) =
                            capture_loop read_ok frametimesec 0 (nat reset_frames) total_frames s
                     in case e1 of
                          Some e \<Rightarrow> (Some e, s # resets)
                        | None \<Rightarrow>
                            (let (e2, total_frames, sciences) =
                                   capture_loop read_ok frametimesec (nat reset_frames)
                                     (length skips) total_frames (last (s # resets))
                             in (e2, s # resets @ sciences))))))"

section \<open>detector/macie/io.py: the deinterleaving array\<close>
















section \<open>detector/macie/io.py: telemetry in \<open>BaseACADIA.parse_science_header\<close>\<close>

text \<open>\<open>xs[i]\<close> on a Python list or a numpy array with an integer \<open>i\<close>: the positions
  \<open>0\<close> to \<open>len(xs) - 1\<close> as they are, the positions \<open>-len(xs)\<close> to \<open>-1\<close> read from the
  back, and \<open>IndexError\<close> for every other integer.\<close>

definition py_index :: "'a list \<Rightarrow> int \<Rightarrow> py_error + 'a" where
  "py_index xs i =
     (if 0 \<le> i \<and> i < int (length xs) then Inr (xs ! nat i)
      else if - int (length xs) \<le> i \<and> i < 0 then Inr (xs ! nat (int (length xs) + i))
      else Inl IndexError)"

text \<open>\<open>a[k]\<close> on a numpy array of numbers: an integer \<open>k\<close> as above; a string \<open>k\<close>
  names a field, which only arrays of records have, and raises \<open>IndexError\<close> here.\<close>

datatype np_key = IntKey int | StrKey string

definition np_getitem :: "'a list \<Rightarrow> np_key \<Rightarrow> py_error + 'a" where
  "np_getitem xs k = (case k of IntKey i \<Rightarrow> py_index xs i | StrKey name \<Rightarrow> Inl IndexError)"

text \<open>The part of a \<open>BaseACADIA\<close> object that \<open>parse_science_header\<close> reads and writes.\<close>

record acadia =
  n_science_headers :: int
  cam_names :: "string list"
  resync :: bool

text \<open>
  The expression of the \<open>try\<close> block:
  \<open>header.asic_chip_id_lower_matching[science_words['ASICIDLOWERTELEMETRYCOLUMN']]\<close>. The
  table maps a chip id to a camera number; a missing key raises \<open>KeyError\<close>.
\<close>

definition chip_number_lookup :: "(nat \<rightharpoonup> int) \<Rightarrow> 16 word list \<Rightarrow> py_error + int" where
  "chip_number_lookup asic_chip_id_lower_matching science_words =
     (case np_getitem science_words (StrKey ''ASICIDLOWERTELEMETRYCOLUMN'') of
        Inl e \<Rightarrow> Inl e
      | Inr chip_id \<Rightarrow>
          (case asic_chip_id_lower_matching (unat chip_id) of
             None \<Rightarrow> Inl KeyError
           | Some chip_number \<Rightarrow> Inr chip_number))"

text \<open>
  \<open>parse_science_header\<close>. A frame is the list of its rows of 16-bit samples; the settings
  \<open>ASICIDLOWERTELEMETRYROW\<close> and \<open>ASICCHIPIDLOWER\<close> are arguments. The handler of the \<open>try\<close>
  block catches \<open>KeyError\<close> only.
\<close>

definition parse_science_header ::
    "int \<Rightarrow> (nat \<rightharpoonup> int) \<Rightarrow> acadia \<Rightarrow> 16 word list list \<Rightarrow> string \<Rightarrow> int
       \<Rightarrow> (py_error + (string \<times> 16 word) list \<times> string \<times> int) \<times> acadia" where
  "parse_science_header telemetry_row asic_chip_id_lower_matching self frame cam_name cam_index =
     (if n_science_headers self = 6
      then
        (case py_index frame telemetry_row of
           Inl e \<Rightarrow> (Inl e, self)
         | Inr row \<Rightarrow>
             (case py_slice row 0 (n_science_headers self) of
                [word1, word2, word3, word4, word5, word6] \<Rightarrow>
                  (let science_words = [word1, word2, word3, word4, word5, word6];
                       science_header =
                         [(''SCIWRD1'', word1), (''SCIWRD2'', word2), (''SCIWRD3'', word3),
                          (''SCIWRD4'', word4), (''SCIWRD5'', word5), (''SCIWRD6'', word6),
                          (''ABLKLEN'', word1 AND 0x3FFF),
                          (''ABLKCNT'', word2 AND 0x00FF),
                          (''AASICID'', word2 AND 0x0F00),
                          (''AHDRLEN'', word2 AND 0x7000),
                          (''ASDPCNT'', word3 AND 0x1FFF),
                          (''AFF'', word3 AND 0x2000),
                          (''ARDFRM'', word3 AND 0x4000),
                          (''AEXPVIDL'', word3 AND 0x8000),
                          (''ASCIFRM'', word4 AND 0x01FF),
                          (''ASCIXPID'', word4 AND 0xFE00)];
                       chip_id_lower = word6;
                       looked_up =
                         (case chip_number_lookup asic_chip_id_lower_matching science_words of
                            Inr chip_number \<Rightarrow> Inr (chip_number, self)
                          | Inl e \<Rightarrow> (if e = KeyError
                                     then Inr (cam_index, self\<lparr>resync := True\<rparr>)
                                     else Inl e))
                   in case looked_up of
                        Inl e \<Rightarrow> (Inl e, self)
                      | Inr (chip_number, self) \<Rightarrow>
                          (let cam_index = chip_number
                           in case py_index (cam_names self) cam_index of
                                Inl e \<Rightarrow> (Inl e, self)
                              | Inr cam_name \<Rightarrow> (Inr (science_header, cam_name, cam_index), self)))
              | _ \<Rightarrow> (Inl ValueError, self)))
      else (Inr ([], cam_name, cam_index), self))"

section \<open>Round trip between exposure time and frame count\<close>

lemma py_round_close: "\<bar>of_int (py_round x) - x\<bar> \<le> 1 / 2"
proof -
  have "of_int \<lfloor>x\<rfloor> \<le> x" and "x < of_int \<lfloor>x\<rfloor> + 1"
    by linarith+
  then show ?thesis
    by (auto simp: py_round_def Let_def)
qed

lemma py_round_scaled:
  assumes "0 < ft"
  shows "\<bar>of_int (py_round (t / ft)) * ft - t\<bar> \<le> ft / 2"
proof -
  have "\<bar>of_int (py_round (t / ft)) - t / ft\<bar> * ft \<le> (1 / 2) * ft"
    using py_round_close [of "t / ft"] assms by (simp add: mult_right_mono)
  moreover have "\<bar>of_int (py_round (t / ft)) - t / ft\<bar> * ft
                 = \<bar>of_int (py_round (t / ft)) * ft - t\<bar>"
  proof -
    have "\<bar>of_int (py_round (t / ft)) - t / ft\<bar> * ft
          = \<bar>(of_int (py_round (t / ft)) - t / ft) * ft\<bar>"
      using assms by (simp add: abs_mult)
    also have "(of_int (py_round (t / ft)) - t / ft) * ft = of_int (py_round (t / ft)) * ft - t"
      using assms by (simp add: field_simps)
    finally show ?thesis .
  qed
  ultimately show ?thesis by simp
qed

lemma frames_lookup:
  "FRAMES_PER_EXPOSURE_TIME ''CDS'' = Some cds_calc_frames"
  "FRAMES_PER_EXPOSURE_TIME ''SSR'' = Some ssr_calc_frames"
  "FRAMES_PER_EXPOSURE_TIME ''MEAN'' = Some mean_calc_frames"
  "FRAMES_PER_EXPOSURE_TIME ''MEDIAN'' = Some mean_calc_frames"
  "FRAMES_PER_EXPOSURE_TIME ''MODE'' = Some mean_calc_frames"
  "FRAMES_PER_EXPOSURE_TIME ''MIN'' = Some ssr_calc_frames"
  "FRAMES_PER_EXPOSURE_TIME ''MAX'' = Some ssr_calc_frames"
  "FRAMES_PER_EXPOSURE_TIME ''FOWLER2'' = Some fowler2_calc_frames"
  "FRAMES_PER_EXPOSURE_TIME ''FOWLER4'' = Some fowler4_calc_frames"
  "FRAMES_PER_EXPOSURE_TIME ''FOWLER8'' = Some fowler8_calc_frames"
  "FRAMES_PER_EXPOSURE_TIME ''FOWLER16'' = Some fowler16_calc_frames"
  by (simp_all add: FRAMES_PER_EXPOSURE_TIME_def)

lemma exposure_lookup:
  "EXPOSURE_TIME_PER_FRAMES ''CDS'' = Some cds_calc_exposure"
  "EXPOSURE_TIME_PER_FRAMES ''SSR'' = Some ssr_calc_exposure"
  "EXPOSURE_TIME_PER_FRAMES ''MEAN'' = Some mean_calc_exposure"
  "EXPOSURE_TIME_PER_FRAMES ''MEDIAN'' = Some mean_calc_exposure"
  "EXPOSURE_TIME_PER_FRAMES ''MODE'' = Some mean_calc_exposure"
  "EXPOSURE_TIME_PER_FRAMES ''MIN'' = Some ssr_calc_exposure"
  "EXPOSURE_TIME_PER_FRAMES ''MAX'' = Some ssr_calc_exposure"
  "EXPOSURE_TIME_PER_FRAMES ''FOWLER2'' = Some fowler2_calc_exposure"
  "EXPOSURE_TIME_PER_FRAMES ''FOWLER4'' = Some fowler4_calc_exposure"
  "EXPOSURE_TIME_PER_FRAMES ''FOWLER8'' = Some fowler8_calc_exposure"
  "EXPOSURE_TIME_PER_FRAMES ''FOWLER16'' = Some fowler16_calc_exposure"
  by (simp_all add: EXPOSURE_TIME_PER_FRAMES_def)

lemmas round_trip_defs =
  exposure_round_trip_def calc_num_frames_def calc_effective_exposure_time_def
  frames_lookup exposure_lookup

lemma round_trip_plain:
  assumes "0 < ft"
    and "M \<in> {''CDS'', ''SSR'', ''MEAN'', ''MEDIAN'', ''MODE'', ''MIN'', ''MAX''}"
  shows "\<exists>e. exposure_round_trip M t ft = Inr e \<and> \<bar>e - t\<bar> \<le> ft"
  using py_round_scaled [OF assms(1), of t] assms
  by (auto simp add: round_trip_defs ssr_calc_frames_def cds_calc_frames_def
      mean_calc_frames_def cds_calc_exposure_def mean_calc_exposure_def ssr_calc_exposure_def)

lemma round_trip_fowler:
  assumes "0 < ft" and "(of_int k - 1) * ft \<le> t"
  shows "\<exists>n. fowler_calc_frames t ft k = Inr n \<and> \<bar>fowler_calc_exposure n ft k - t\<bar> \<le> ft"
  using py_round_scaled [OF assms(1), of "t - ft * of_int k"] assms
  by (auto simp add: fowler_calc_frames_def fowler_calc_exposure_def Let_def
      ssr_calc_frames_def algebra_simps)

lemma round_trip_fowler2:
  assumes "0 < ft" and "ft \<le> t"
  shows "\<exists>e. exposure_round_trip ''FOWLER2'' t ft = Inr e \<and> \<bar>e - t\<bar> \<le> ft"
  using round_trip_fowler [OF assms(1), of 2 t] assms(2)
  by (auto simp add: round_trip_defs fowler2_calc_frames_def fowler2_calc_exposure_def)

lemma round_trip_fowler4:
  assumes "0 < ft" and "3 * ft \<le> t"
  shows "\<exists>e. exposure_round_trip ''FOWLER4'' t ft = Inr e \<and> \<bar>e - t\<bar> \<le> ft"
  using round_trip_fowler [OF assms(1), of 4 t] assms(2)
  by (auto simp add: round_trip_defs fowler4_calc_frames_def fowler4_calc_exposure_def)

text \<open>
  C1 (as amended). For the modes CDS, SSR, MEAN, MEDIAN, MODE, MIN and MAX, every
  non-negative exposure time \<open>t\<close> and every positive frame time, the exposure computed back
  from the frame count lies within one frame time of \<open>t\<close>. For FOWLER2 and FOWLER4 the same
  holds once \<open>t\<close> is at least \<open>(k - 1)\<close> frame times, \<open>k\<close> the Fowler number: below that the
  exposure is clamped to \<open>k\<close> frame times. Nothing is stated for FOWLER8 and FOWLER16.
\<close>

theorem exposure_round_trip_within_frame_time:
  assumes "0 \<le> t" and "0 < ft"
    and "M \<in> {''CDS'', ''SSR'', ''MEAN'', ''MEDIAN'', ''MODE'', ''MIN'', ''MAX''}
         \<or> (M = ''FOWLER2'' \<and> ft \<le> t) \<or> (M = ''FOWLER4'' \<and> 3 * ft \<le> t)"
  shows "\<exists>e. exposure_round_trip M t ft = Inr e \<and> \<bar>e - t\<bar> \<le> ft"
  using assms(3)
proof (elim disjE conjE)
  assume "M \<in> {''CDS'', ''SSR'', ''MEAN'', ''MEDIAN'', ''MODE'', ''MIN'', ''MAX''}"
  then show ?thesis by (rule round_trip_plain [OF assms(2)])
next
  assume "M = ''FOWLER2''" and "ft \<le> t"
  then show ?thesis using round_trip_fowler2 [OF assms(2)] by simp
next
  assume "M = ''FOWLER4''" and "3 * ft \<le> t"
  then show ?thesis using round_trip_fowler4 [OF assms(2)] by simp
qed

theorem exposure_round_trip_within_frame_time_witness:
  "\<exists>e. exposure_round_trip ''FOWLER4'' 7 2 = Inr e \<and> \<bar>e - 7\<bar> \<le> 2"
  using exposure_round_trip_within_frame_time [of 7 2 "''FOWLER4''"] by simp

text \<open>
  C1 as stated fails: FOWLER2 is a mode of the registry, and for the exposure time 0 with
  frame time 1 the round trip gives 2, which is two frame times away from 0.
\<close>

theorem exposure_round_trip_fowler2_counterexample:
  "FRAMES_PER_EXPOSURE_TIME ''FOWLER2'' \<noteq> None
   \<and> exposure_round_trip ''FOWLER2'' 0 1 = Inr 2
   \<and> \<not> \<bar>2 - 0\<bar> \<le> (1::rat)"
  by (simp add: round_trip_defs fowler2_calc_frames_def fowler_calc_frames_def
      fowler2_calc_exposure_def fowler_calc_exposure_def)

text \<open>FOWLER8 and FOWLER16 compute the exposure with the Fowler number 4: an exposure of
  exactly 8 (16) frame times comes back as 12 (28) frame times.\<close>

lemma exposure_round_trip_fowler8_fowler16:
  "exposure_round_trip ''FOWLER8'' 8 1 = Inr 12"
  "exposure_round_trip ''FOWLER16'' 16 1 = Inr 28"
  by (simp_all add: round_trip_defs fowler8_calc_frames_def fowler16_calc_frames_def
      fowler_calc_frames_def fowler8_calc_exposure_def fowler16_calc_exposure_def
      fowler_calc_exposure_def ssr_calc_frames_def py_round_def)

section \<open>CDS reduction\<close>

lemma widen_name:
  "str_replace (str_of_nat (int_of_str (last (findall_digits (drop 1 (dtype_str (UInt 8))))))) 
     (str_of_nat (int_of_str (last (findall_digits (drop 1 (dtype_str (UInt 8))))) * 2)) (drop 1 (dtype_str (UInt 8))) = ''int16''"
  "str_replace (str_of_nat (int_of_str (last (findall_digits (drop 1 (dtype_str (UInt 16))))))) 
     (str_of_nat (int_of_str (last (findall_digits (drop 1 (dtype_str (UInt 16))))) * 2)) (drop 1 (dtype_str (UInt 16))) = ''int32''"
  "str_replace (str_of_nat (int_of_str (last (findall_digits (drop 1 (dtype_str (UInt 32))))))) 
     (str_of_nat (int_of_str (last (findall_digits (drop 1 (dtype_str (UInt 32))))) * 2)) (drop 1 (dtype_str (UInt 32))) = ''int64''"
  by code_simp+

lemma starts_u: "take (Suc 0) (dtype_str (UInt w)) = ''u''"
  by (simp add: dtype_str_def)

lemma np_dtype_signed:
  "np_dtype ''int16'' = Some (SInt 16)" "np_dtype ''int32'' = Some (SInt 32)" "np_dtype ''int64'' = Some (SInt 64)"
  by (simp_all add: np_dtype_def)

lemma wrap_signed_id:
  assumes "- (2 ^ (w - 1)) \<le> v" "v < 2 ^ (w - 1)" "0 < w"
  shows "wrap_dtype (SInt w) v = v"
proof -
  have "(2::int) ^ w = 2 * 2 ^ (w - 1)"
    using assms(3) by (cases w) simp_all
  then have "(v + 2 ^ (w - 1)) mod 2 ^ w = v + 2 ^ (w - 1)"
    using assms by (intro mod_pos_pos_trivial) auto
  then show ?thesis by (simp add: wrap_dtype_def)
qed

lemma wrap_widened:
  assumes "0 < w" "0 \<le> x" "x < 2 ^ w" "0 \<le> y" "y < 2 ^ w"
  shows "wrap_dtype (SInt (2 * w)) (wrap_dtype (SInt (2 * w)) x - wrap_dtype (SInt (2 * w)) y) = x - y"
proof -
  have "w \<le> 2 * w - 1" using assms(1) by simp
  then have b: "(2::int) ^ w \<le> 2 ^ (2 * w - 1)"
    by (intro power_increasing) auto
  have p: "(0::int) < 2 ^ (2 * w - 1)" by simp
  have w2: "0 < 2 * w" using assms(1) by simp
  have x: "wrap_dtype (SInt (2 * w)) x = x"
    by (rule wrap_signed_id [OF _ _ w2]) (use assms b p in linarith)+
  have y: "wrap_dtype (SInt (2 * w)) y = y"
    by (rule wrap_signed_id [OF _ _ w2]) (use assms b p in linarith)+
  have "wrap_dtype (SInt (2 * w)) (x - y) = x - y"
    by (rule wrap_signed_id [OF _ _ w2]) (use assms b p in linarith)+
  with x y show ?thesis by simp
qed

lemma map_wrap_widened:
  assumes "0 < w" "\<forall>v \<in> set xs. 0 \<le> v \<and> v < 2 ^ w" "\<forall>v \<in> set ys. 0 \<le> v \<and> v < 2 ^ w"
  shows "map (\<lambda>(x, y). wrap_dtype (SInt (2 * w)) (x - y))
           (zip (map (wrap_dtype (SInt (2 * w))) xs) (map (wrap_dtype (SInt (2 * w))) ys))
         = map (\<lambda>(x, y). x - y) (zip xs ys)"
  using assms(2,3)
proof (induction xs arbitrary: ys)
  case Nil then show ?case by simp
next
  case (Cons x xs)
  show ?case
  proof (cases ys)
    case Nil then show ?thesis by simp
  next
    case (Cons y ys')
    with Cons.prems Cons.IH [of ys'] wrap_widened [OF assms(1), of x y]
    show ?thesis by simp
  qed
qed

lemma cds_widened_name:
  assumes "(w, name) \<in> {(8, ''int16''), (16, ''int32''), (32, ''int64'')}"
    and "ramp_dtype images = UInt w"
    and "ramp_frames images \<noteq> []"
    and "\<forall>v \<in> set (hd (ramp_frames images)). 0 \<le> v \<and> v < 2 ^ w"
    and "\<forall>v \<in> set (last (ramp_frames images)). 0 \<le> v \<and> v < 2 ^ w"
  shows "cds_frame_reduce images =
           Inr \<lparr>frame_dtype = SInt (2 * w),
                frame_data = map (\<lambda>(x, y). x - y)
                               (zip (last (ramp_frames images)) (hd (ramp_frames images)))\<rparr>"
proof -
  have w: "0 < w" using assms(1) by auto
  have nm: "str_replace (str_of_nat (int_of_str (last (findall_digits (drop (Suc 0) (dtype_str (UInt w)))))))
     (str_of_nat (int_of_str (last (findall_digits (drop (Suc 0) (dtype_str (UInt w))))) * 2)) (drop (Suc 0) (dtype_str (UInt w))) = name"
    using assms(1) widen_name by auto
  have dt: "np_dtype name = Some (SInt (2 * w))"
    using assms(1) np_dtype_signed by auto
  show ?thesis
    using assms(2,3) map_wrap_widened [OF w assms(5) assms(4)]
    by (simp add: cds_frame_reduce_def Let_def starts_u nm astype_def dt frame_sub_def)
qed


text \<open>
  C7 (as amended). For a ramp of unsigned samples of width 8, 16 or 32 bits,
  \<open>cds_frame_reduce\<close> converts the last and the first frame to the signed type of twice the
  width and returns their exact difference, sample by sample: nothing wraps around, also
  when the last frame is below the first. (For 64-bit samples the doubled type name is not
  one numpy knows.)
\<close>

theorem cds_frame_reduce_widens:
  assumes "w \<in> {8, 16, 32}"
    and "ramp_dtype images = UInt w"
    and "ramp_frames images \<noteq> []"
    and "\<forall>v \<in> set (hd (ramp_frames images)). 0 \<le> v \<and> v < 2 ^ w"
    and "\<forall>v \<in> set (last (ramp_frames images)). 0 \<le> v \<and> v < 2 ^ w"
  shows "cds_frame_reduce images =
           Inr \<lparr>frame_dtype = SInt (2 * w),
                frame_data = map (\<lambda>(x, y). x - y)
                               (zip (last (ramp_frames images)) (hd (ramp_frames images)))\<rparr>"
proof -
  obtain name where "(w, name) \<in> {(8, ''int16''), (16, ''int32''), (32, ''int64'')}"
    using assms(1) by blast
  then show ?thesis
    by (rule cds_widened_name [OF _ assms(2-5)])
qed

theorem cds_frame_reduce_widens_witness:
  "cds_frame_reduce \<lparr>ramp_dtype = UInt 16, ramp_frames = [[100], [150]]\<rparr>
     = Inr \<lparr>frame_dtype = SInt 32, frame_data = [50]\<rparr>
   \<and> cds_frame_reduce \<lparr>ramp_dtype = UInt 16, ramp_frames = [[150], [100]]\<rparr>
     = Inr \<lparr>frame_dtype = SInt 32, frame_data = [- 50]\<rparr>"
  using cds_frame_reduce_widens [of 16 "\<lparr>ramp_dtype = UInt 16, ramp_frames = [[100], [150]]\<rparr>"]
    cds_frame_reduce_widens [of 16 "\<lparr>ramp_dtype = UInt 16, ramp_frames = [[150], [100]]\<rparr>"]
  by simp

text \<open>
  C7 as stated fails for the unsigned width 64: the name computed for the widened type is
  \<open>int128\<close>, and the conversion raises instead of returning a difference.
\<close>

theorem cds_frame_reduce_uint64_counterexample:
  "cds_frame_reduce \<lparr>ramp_dtype = UInt 64, ramp_frames = [[100], [150]]\<rparr> = Inl TypeError"
  by code_simp

section \<open>Fowler reduction\<close>

lemma fowler_end_window:
  assumes "k < length fs"
  shows "py_slice fs (- 1 - int k) (- 1) = take k (drop (length fs - 1 - k) fs)"
proof -
  have lo: "py_slice_index (length fs) (- 1 - int k) = length fs - 1 - k"
    using assms by (simp add: py_slice_index_def nat_diff_distrib')
  have hi: "py_slice_index (length fs) (- 1) = length fs - 1"
    using assms by (simp add: py_slice_index_def nat_diff_distrib')
  have "length fs - 1 - (length fs - 1 - k) = k"
    using assms by simp
  then show ?thesis
    by (simp add: py_slice_def lo hi)
qed

lemma fowler_start_window: "py_slice fs 0 (int k) = take k fs"
  by (cases "k \<le> length fs") (simp_all add: py_slice_def py_slice_index_def min_def)

text \<open>The window averaged at the end of the ramp: the \<open>k\<close> frames before the last one.\<close>

lemma fowler_frame_reduce_windows:
  assumes "k < length (ramp_frames images)"
  shows "fowler_frame_reduce images k =
     (case mean_axis0 (take k (ramp_frames images)) of
        None \<Rightarrow> None
      | Some m0 \<Rightarrow>
          (case mean_axis0 (take k (drop (length (ramp_frames images) - 1 - k)
                                      (ramp_frames images))) of
             None \<Rightarrow> None
           | Some m1 \<Rightarrow> Some (map (\<lambda>(e, s). e - s) (zip m1 m0))))"
  unfolding fowler_frame_reduce_def fowler_end_window [OF assms] fowler_start_window
  by (rule refl)

text \<open>
  C2. The specification asks for the mean of the last \<open>k\<close> frames minus the mean of the first \<open>k\<close>
  frames, 30 for an 8-frame ramp whose first two frames average 10 and whose last two
  average 40. On the ramp 10, 10, 0, 0, 0, 0, 40, 40 (one pixel) the code averages frames 5
  and 6, leaves the last frame out, and returns 10.
\<close>

theorem fowler2_frame_reduce_skips_last_frame:
  "fowler2_frame_reduce
     \<lparr>ramp_dtype = UInt 16,
      ramp_frames = [[10], [10], [0], [0], [0], [0], [40], [40]]\<rparr> = Some [10]"
  by code_simp

section \<open>Status updates and the status file\<close>





section \<open>Command completion\<close>






section \<open>The skip schedule\<close>

lemma skips_loop_entries:
  "length acc + nat r \<le> length (skips_loop r k acc)
   \<and> (\<forall>i < length (skips_loop r k acc).
         skips_loop r k acc ! i
           = (if i < length acc then acc ! i else (i - length acc) mod (nat k + 1) \<noteq> 0))"
proof (induction r k acc rule: skips_loop.induct)
  case (1 r k acc)
  show ?case
  proof (cases "r > 0")
    case False
    then show ?thesis by (simp add: skips_loop.simps [of r k acc])
  next
    case True
    define acc' where "acc' = acc @ [False] @ replicate (nat k) True"
    define r' where "r' = r - 1 - int (nat k)"
    have unf: "skips_loop r k acc = skips_loop r' k acc'"
      using True by (simp add: skips_loop.simps [of r k acc] acc'_def r'_def)
    have ih: "length acc' + nat r' \<le> length (skips_loop r' k acc')
       \<and> (\<forall>i < length (skips_loop r' k acc').
             skips_loop r' k acc' ! i
               = (if i < length acc' then acc' ! i else (i - length acc') mod (nat k + 1) \<noteq> 0))"
      using "1.IH" [OF True] by (simp add: acc'_def r'_def)
    have len: "length acc' = length acc + nat k + 1" by (simp add: acc'_def)
    have "length acc + nat r \<le> length acc' + nat r'"
      unfolding len r'_def using True by linarith
    moreover have "length acc' + nat r' \<le> length (skips_loop r k acc)"
      using ih unf by simp
    ultimately have l: "length acc + nat r \<le> length (skips_loop r k acc)"
      by (rule order_trans)
    have e: "skips_loop r k acc ! i
           = (if i < length acc then acc ! i else (i - length acc) mod (nat k + 1) \<noteq> 0)"
      if "i < length (skips_loop r k acc)" for i
    proof -
      from that ih unf have v: "skips_loop r k acc ! i
        = (if i < length acc' then acc' ! i else (i - length acc') mod (nat k + 1) \<noteq> 0)"
        by simp
      consider "i < length acc" | "i = length acc" | "length acc < i" "i < length acc'"
        | "length acc' \<le> i" by linarith
      then show ?thesis
      proof cases
        case 1
        then show ?thesis using v len by (simp add: acc'_def nth_append)
      next
        case 2
        then show ?thesis using v len by (simp add: acc'_def nth_append)
      next
        case 3
        then have "i - length acc < nat k + 1" "i - length acc \<noteq> 0" using len by auto
        then have "(i - length acc) mod (nat k + 1) \<noteq> 0" by simp
        moreover have "acc' ! i = True"
          using 3 len by (auto simp add: acc'_def nth_append nth_Cons')
        ultimately show ?thesis using v 3 by simp
      next
        case 4
        have "i - length acc = (i - length acc') + (nat k + 1)" using 4 len by simp
        then have "(i - length acc) mod (nat k + 1) = (i - length acc') mod (nat k + 1)"
          by (simp only: mod_add_self2)
        then show ?thesis using v 4 len by simp
      qed
    qed
    from l e show ?thesis by blast
  qed
qed

lemma skips_loop_nonpositive: "r \<le> 0 \<Longrightarrow> skips_loop r k acc = acc"
  by (simp add: skips_loop.simps [of r k acc])

text \<open>
  C5 (as amended). The skip schedule built by \<open>start\<close> has as many entries as the computed
  science-frame count, kept and skipped entries together, and entry \<open>i\<close> is skipped unless
  \<open>i\<close> is a multiple of \<open>round(skipTime / frameTime) + 1\<close>: every kept entry is followed by
  that many skipped ones, as far as the length allows. For a science-frame count of 10 and
  \<open>skipTime = 2 * frameTime\<close> the ten entries keep positions 0, 3, 6 and 9.
\<close>

theorem start_skips_schedule:
  assumes "calc_num_frames mode ft exposure_time = Inr science_frames"
    and "ssr_calc_frames skip_time ft = Inr skip_frames"
  shows "\<exists>skips. start_skips mode ft exposure_time skip_time = Inr skips
           \<and> length skips = nat science_frames
           \<and> (\<forall>i < length skips. skips ! i = (i mod (nat skip_frames + 1) \<noteq> 0))"
proof -
  define xs where "xs = skips_loop science_frames skip_frames []"
  define skips where "skips = py_slice xs 0 science_frames"
  have st: "start_skips mode ft exposure_time skip_time = Inr skips"
    by (simp add: start_skips_def assms skips_def xs_def)
  have p: "nat science_frames \<le> length xs
     \<and> (\<forall>i < length xs. xs ! i = (i mod (nat skip_frames + 1) \<noteq> 0))"
    using skips_loop_entries [of "[]" science_frames skip_frames] by (simp add: xs_def)
  have sl: "skips = take (nat science_frames) xs"
  proof (cases "science_frames < 0")
    case True
    then have "xs = []" by (simp add: xs_def skips_loop_nonpositive)
    then show ?thesis by (simp add: skips_def py_slice_def)
  next
    case False
    then show ?thesis using p by (simp add: skips_def py_slice_def py_slice_index_def min_def)
  qed
  have "length skips = nat science_frames" using sl p by simp
  moreover have "\<forall>i < length skips. skips ! i = (i mod (nat skip_frames + 1) \<noteq> 0)"
    using sl p by simp
  ultimately show ?thesis using st by blast
qed

lemma example_frame_counts:
  "calc_num_frames ''SSR'' 1 10 = Inr 10" "ssr_calc_frames 2 1 = Inr 2"
  by code_simp+

theorem start_skips_schedule_witness:
  "\<exists>skips. start_skips ''SSR'' 1 10 2 = Inr skips
           \<and> length skips = 10
           \<and> (\<forall>i < length skips. skips ! i = (i mod 3 \<noteq> 0))"
  using start_skips_schedule [of "''SSR''" 1 10 10 2 2]
  by (simp add: example_frame_counts)

text \<open>
  C5 as stated fails: with a science-frame count of 10 and \<open>skipTime = 2 * frameTime\<close> the
  schedule is cut to 10 entries, of which 4 are kept, not to 10 kept entries.
\<close>

theorem start_skips_kept_entries_counterexample:
  "start_skips ''SSR'' 1 10 2
     = Inr [False, True, True, False, True, True, False, True, True, False]
   \<and> count_list [False, True, True, False, True, True, False, True, True, False] False \<noteq> 10"
  by code_simp

section \<open>Time remaining during an exposure\<close>

lemma capture_loop_trace:
  assumes "capture_loop read_ok ft d n tot s = (e, t, tr)"
  shows "t = tot - int (length tr)
         \<and> (e = None \<longrightarrow> length tr = n)
         \<and> (\<forall>i < length tr.
               ExposureTimeRemaining (status (tr ! i)) = Some (of_int (tot - 1 - int i) * ft))"
  using assms
proof (induction n arbitrary: d tot s e t tr)
  case 0
  then show ?case by simp
next
  case (Suc n)
  show ?case
  proof (cases "read_ok d")
    case False
    with Suc.prems show ?thesis by auto
  next
    case True
    define s' where "s' = update_exposure_time_remaining (of_int (tot - 1) * ft) s"
    obtain e' t' tr' where rec: "capture_loop read_ok ft (Suc d) n (tot - 1) s' = (e', t', tr')"
      by (cases "capture_loop read_ok ft (Suc d) n (tot - 1) s'") auto
    from Suc.prems True rec have res: "e = e'" "t = t'" "tr = s' # tr'"
      by (simp_all add: Let_def s'_def)
    note ih = Suc.IH [OF rec]
    have hdv: "ExposureTimeRemaining (status s') = Some (of_int (tot - 1) * ft)"
      by (simp add: s'_def update_exposure_time_remaining_def)
    have "\<forall>i < length tr. ExposureTimeRemaining (status (tr ! i))
            = Some (of_int (tot - 1 - int i) * ft)"
    proof (intro allI impI)
      fix i assume i: "i < length tr"
      show "ExposureTimeRemaining (status (tr ! i)) = Some (of_int (tot - 1 - int i) * ft)"
      proof (cases i)
        case 0
        then show ?thesis using hdv res by simp
      next
        case (Suc k)
        with i res have "k < length tr'" by simp
        with ih have "ExposureTimeRemaining (status (tr' ! k))
                       = Some (of_int (tot - 1 - 1 - int k) * ft)" by blast
        moreover have "tot - 1 - 1 - int k = tot - 1 - int i" using Suc by simp
        ultimately show ?thesis using res Suc by simp
      qed
    qed
    with ih res show ?thesis by simp
  qed
qed


lemma start_trace_complete:
  assumes "start mode ft reset_frames read_ok exposure_time skip_time s = (None, trace)"
    and "start_skips mode ft exposure_time skip_time = Inr skips"
  shows "length trace = 1 + nat reset_frames + length skips"
proof -
  obtain science_frames where nf: "calc_num_frames mode ft exposure_time = Inr science_frames"
    using assms(2) by (cases "calc_num_frames mode ft exposure_time") (auto simp: start_skips_def)
  obtain eff where ef: "calc_effective_exposure_time mode ft science_frames = Inr eff"
    using assms nf
    by (cases "calc_effective_exposure_time mode ft science_frames") (auto simp: start_def)
  define T where "T = reset_frames + science_frames"
  define s1 where "s1 = update_exposure_time_remaining (of_int T * ft)
                          (update_total_frame_count science_frames s)"
  obtain e1 t1 resets where l1:
    "capture_loop read_ok ft 0 (nat reset_frames) T s1 = (e1, t1, resets)"
    by (cases "capture_loop read_ok ft 0 (nat reset_frames) T s1") auto
  note r1 = capture_loop_trace [OF l1]
  obtain e2 t2 sciences where l2:
    "capture_loop read_ok ft (nat reset_frames) (length skips) t1 (last (s1 # resets))
       = (e2, t2, sciences)"
    by (cases "capture_loop read_ok ft (nat reset_frames) (length skips) t1 (last (s1 # resets))")
      auto
  note r2 = capture_loop_trace [OF l2]
  have "e1 = None \<and> e2 = None \<and> trace = s1 # resets @ sciences"
    using assms nf ef l1 l2
    by (auto simp: start_def Let_def T_def s1_def split: option.splits)
  with r1 r2 show ?thesis by simp
qed





section \<open>Telemetry decoding\<close>

lemma chip_number_lookup_raises:
  "chip_number_lookup asic_chip_id_lower_matching science_words = Inl IndexError"
  by (simp add: chip_number_lookup_def np_getitem_def)

text \<open>With six science-header words configured, every frame that has the telemetry row and
  six words in it makes \<open>parse_science_header\<close> raise \<open>IndexError\<close>; the lookup table is
  never consulted and \<open>resync\<close> keeps its value.\<close>

lemma parse_science_header_raises:
  assumes "n_science_headers self = 6"
    and "py_index frame telemetry_row = Inr row"
    and "py_slice row 0 6 = [word1, word2, word3, word4, word5, word6]"
  shows "parse_science_header telemetry_row asic_chip_id_lower_matching self frame cam_name cam_index
           = (Inl IndexError, self)"
  using assms
  by (simp add: parse_science_header_def chip_number_lookup_raises)

text \<open>
  C3. The specification: with 6 science-header words, a chip id that the table maps to another
  camera than the expected one moves the frame to that camera and sets \<open>resync\<close>. On a
  frame whose telemetry row carries chip id 2 while camera 0 is expected, with the table
  mapping chip id 2 to camera 2, the code raises \<open>IndexError\<close> from the index
  \<open>science_words['ASICIDLOWERTELEMETRYCOLUMN']\<close>: no camera is returned and \<open>resync\<close> stays
  false.
\<close>

theorem parse_science_header_chip_lookup_raises:
  "parse_science_header 0 [0 \<mapsto> 0, 1 \<mapsto> 1, 2 \<mapsto> 2, 3 \<mapsto> 3]
     \<lparr>n_science_headers = 6, cam_names = [''C0'', ''C1'', ''C2'', ''C3''], resync = False\<rparr>
     [[0, 0, 0, 0, 0, 2, 7, 7], [7, 7, 7, 7, 7, 7, 7, 7]] ''C0'' 0
   = (Inl IndexError,
      \<lparr>n_science_headers = 6, cam_names = [''C0'', ''C1'', ''C2'', ''C3''], resync = False\<rparr>)"
  by (simp add: parse_science_header_def chip_number_lookup_raises py_index_def py_slice_def
      py_slice_index_def)

section \<open>The deinterleaving array\<close>

subsection \<open>Lists of residues\<close>







subsection \<open>Rows and blocks\<close>






subsection \<open>The first pass\<close>







subsection \<open>Channel deinterlacing permutes each row\<close>














subsection \<open>The generated array\<close>










end
